theory Spec2Isabelle
  imports Main "HOL-Library.Word"
begin

unbundle bit_operations_syntax

section \<open>The memory dump payload (payloads/dump_mem/dump_mem.c)\<close>

text \<open>
  The payload is one straight-line C function, \<^verbatim>\<open>doit\<close>, behind the hook entry point
  \<^verbatim>\<open>_start\<close>. It works on raw pointers into the device's 32-bit address space, so the
  embedding passes an explicit machine state: the byte-addressed memory, the record of
  every memory access and transport call in program order, and the frames handed to the
  serial link.

  The greeting is a writable global array of the payload. It lies in the same memory as
  everything the raw pointers of the payload can reach, so a store through \<^verbatim>\<open>write_buf\<close>
  and a dump through \<^verbatim>\<open>tar_addr\<close> may hit it.

  Every address of the memory can be read in this model. What the hardware does on an
  unmapped, protected or misaligned address (the payload checks none of these) is not part
  of it.
\<close>

subsection \<open>Machine state\<close>

type_synonym addr = "32 word"
type_synonym byte = "8 word"

text \<open>
  The source reads the two command fields with \<^verbatim>\<open>*((uint32_t *)(read_buf+8))\<close> and
  \<^verbatim>\<open>*((char **)(read_buf+4))\<close>: which byte of the field is the most significant one is
  fixed by the target the payload is compiled for, not by the C text. The byte order is
  therefore a component of the machine, never changed by the program. So is the address at
  which the global array \<^verbatim>\<open>greeting\<close> is placed: the field \<open>greeting\<close> of the machine is
  the value of the C expression \<^verbatim>\<open>greeting\<close>, a pointer to the first element of the array.
\<close>

datatype endian = Little_endian | Big_endian

text \<open>
  What the payload does to its environment, one constructor per kind of statement of
  \<^verbatim>\<open>doit\<close>: a 4-byte load, a 1-byte store, and the two transport calls with the
  arguments they are given: each of them carries the source pointer and the length.
\<close>

datatype action =
    Load32 addr
  | Store8 addr byte
  | Send_single addr nat
  | Send_many addr "32 word"

record machine =
  mem :: "addr \<Rightarrow> byte"
  byte_order :: endian
  greeting :: addr
  log :: "action list"
  wire :: "byte list list"

subsection \<open>Memory access\<close>

definition word_of_bytes :: "byte \<Rightarrow> byte \<Rightarrow> byte \<Rightarrow> byte \<Rightarrow> 32 word" where
  \<comment> \<open>most significant byte first\<close>
  "word_of_bytes b3 b2 b1 b0 =
     push_bit 24 (ucast b3) OR push_bit 16 (ucast b2) OR push_bit 8 (ucast b1) OR ucast b0"

definition word_at :: "endian \<Rightarrow> (addr \<Rightarrow> byte) \<Rightarrow> addr \<Rightarrow> 32 word" where
  "word_at e m a =
     (case e of
        Little_endian \<Rightarrow> word_of_bytes (m (a + 3)) (m (a + 2)) (m (a + 1)) (m a)
      | Big_endian \<Rightarrow> word_of_bytes (m a) (m (a + 1)) (m (a + 2)) (m (a + 3)))"

definition load32 :: "addr \<Rightarrow> machine \<Rightarrow> 32 word \<times> machine" where
  \<comment> \<open>\<^verbatim>\<open>*((uint32_t *)p)\<close>: the four bytes at \<open>p\<close>, read in the machine's byte order\<close>
  "load32 p s = (word_at (byte_order s) (mem s) p, s\<lparr>log := log s @ [Load32 p]\<rparr>)"

definition store8 :: "addr \<Rightarrow> byte \<Rightarrow> machine \<Rightarrow> machine" where
  \<comment> \<open>\<^verbatim>\<open>p[0] = v\<close> for a byte pointer \<open>p\<close>\<close>
  "store8 p v s = s\<lparr>mem := (mem s)(p := v), log := log s @ [Store8 p v]\<rparr>"

fun read_bytes :: "(addr \<Rightarrow> byte) \<Rightarrow> addr \<Rightarrow> nat \<Rightarrow> byte list" where
  \<comment> \<open>the \<open>n\<close> bytes found from address \<open>a\<close> on, in address order (addresses wrap at \<open>2^32\<close>)\<close>
  "read_bytes m a 0 = []"
| "read_bytes m a (Suc n) = m a # read_bytes m (a + 1) n"

subsection \<open>The greeting\<close>

definition c_string_literal :: "string \<Rightarrow> byte list" where
  \<comment> \<open>A C array initialised from a string literal holds the characters written between the
      quotes followed by the terminating zero byte the language appends to every literal.\<close>
  "c_string_literal cs = map (\<lambda>c. of_nat (of_char c)) cs @ [0]"

definition greeting_init :: "byte list" where
  \<comment> \<open>The initialiser of \<^verbatim>\<open>char greeting[] = "Ok\0";\<close>: what the array holds when the
      payload has been loaded and nothing has been stored into it since.\<close>
  "greeting_init = c_string_literal [CHR ''O'', CHR ''k'', CHR 0x00]"

definition sizeof_greeting :: nat where
  \<comment> \<open>\<^verbatim>\<open>sizeof(greeting)\<close>: the array has no declared bound, its size is that of its initialiser\<close>
  "sizeof_greeting = length greeting_init"

definition greeting_intact :: "machine \<Rightarrow> bool" where
  \<comment> \<open>the array \<^verbatim>\<open>greeting\<close> holds its initialiser\<close>
  "greeting_intact s = (read_bytes (mem s) (greeting s) sizeof_greeting = greeting_init)"

subsection \<open>Transport primitives\<close>

definition UART_protocol_send_single :: "addr \<Rightarrow> nat \<Rightarrow> machine \<Rightarrow> machine" where
  \<comment> \<open>Modelled from the spec: the function is declared in lib/print.h, which is not among
      the sources. Section 4.4: "transmit exactly length bytes from a caller-owned buffer as
      one logical unit".\<close>
  "UART_protocol_send_single buf len s =
     s\<lparr>log := log s @ [Send_single buf len],
       wire := wire s @ [read_bytes (mem s) buf len]\<rparr>"

definition UART_protocol_send_many :: "addr \<Rightarrow> 32 word \<Rightarrow> machine \<Rightarrow> machine" where
  \<comment> \<open>Modelled from the spec: the function is declared in lib/print.h, which is not among
      the sources. Section 4.4: "transmit length bytes read directly from an arbitrary
      memory address as one logical unit".\<close>
  "UART_protocol_send_many src len s =
     s\<lparr>log := log s @ [Send_many src len],
       wire := wire s @ [read_bytes (mem s) src (unat len)]\<rparr>"

subsection \<open>The payload\<close>

definition decode :: "addr \<Rightarrow> machine \<Rightarrow> (addr \<times> 32 word) \<times> machine" where
  \<comment> \<open>The first two statements of \<^verbatim>\<open>doit\<close>, in their order: \<^verbatim>\<open>size\<close> is loaded from
      offset 8, then \<^verbatim>\<open>tar_addr\<close> from offset 4. The result is (tar_addr, size).\<close>
  "decode read_buf s0 =
     (let (size, s1) = load32 (read_buf + 8) s0;
          (tar_addr, s2) = load32 (read_buf + 4) s1
      in ((tar_addr, size), s2))"

definition doit :: "addr \<Rightarrow> addr \<Rightarrow> machine \<Rightarrow> int \<times> machine" where
  \<comment> \<open>The statements of \<^verbatim>\<open>doit\<close> in program order. The array \<^verbatim>\<open>greeting\<close> is passed as
      a pointer, so what is sent is what the array holds when the call is made. The send of
      a second greeting after the bulk transfer is commented out in the source and is no
      part of the function.\<close>
  "doit read_buf write_buf s0 =
     (let ((tar_addr, size), s2) = decode read_buf s0;
          s3 = UART_protocol_send_single (greeting s2) sizeof_greeting s2;
          s4 = UART_protocol_send_many tar_addr size s3;
          s5 = store8 write_buf 0 s4
      in (0, s5))"

definition start :: "addr \<Rightarrow> addr \<Rightarrow> machine \<Rightarrow> int \<times> machine" where
  \<comment> \<open>\<^verbatim>\<open>_start\<close>. The two \<^verbatim>\<open>__asm__\<close> statements around the call act on the register file
      and the stack pointer, which are not part of this state.\<close>
  "start read_buf write_buf s =
     (let (res, s') = doit read_buf write_buf s
      in (res, s'))"

subsection \<open>Observations of one invocation\<close>

definition invocation :: "addr \<Rightarrow> addr \<Rightarrow> machine \<Rightarrow> action list" where
  \<comment> \<open>the actions one call of the entry point appends to the log\<close>
  "invocation read_buf write_buf s =
     drop (length (log s)) (log (snd (start read_buf write_buf s)))"

definition frames :: "addr \<Rightarrow> addr \<Rightarrow> machine \<Rightarrow> byte list list" where
  \<comment> \<open>the frames one call of the entry point puts on the link\<close>
  "frames read_buf write_buf s =
     drop (length (wire s)) (wire (snd (start read_buf write_buf s)))"

fun is_transport :: "action \<Rightarrow> bool" where
  "is_transport (Send_single buf len) = True"
| "is_transport (Send_many src len) = True"
| "is_transport (Load32 p) = False"
| "is_transport (Store8 p v) = False"

fun is_load :: "action \<Rightarrow> bool" where
  "is_load (Load32 p) = True"
| "is_load (Store8 p v) = False"
| "is_load (Send_single buf len) = False"
| "is_load (Send_many src len) = False"

fun is_store :: "action \<Rightarrow> bool" where
  "is_store (Store8 p v) = True"
| "is_store (Load32 p) = False"
| "is_store (Send_single buf len) = False"
| "is_store (Send_many src len) = False"

fun is_send_single :: "action \<Rightarrow> bool" where
  "is_send_single (Send_single buf len) = True"
| "is_send_single (Send_many src len) = False"
| "is_send_single (Load32 p) = False"
| "is_send_single (Store8 p v) = False"

fun is_send_many :: "action \<Rightarrow> bool" where
  "is_send_many (Send_many src len) = True"
| "is_send_many (Send_single buf len) = False"
| "is_send_many (Load32 p) = False"
| "is_send_many (Store8 p v) = False"

definition before_first :: "(action \<Rightarrow> bool) \<Rightarrow> action list \<Rightarrow> action list" where
  \<comment> \<open>the actions that precede the first one of the given kind\<close>
  "before_first P acts = takeWhile (Not \<circ> P) acts"

definition from_first :: "(action \<Rightarrow> bool) \<Rightarrow> action list \<Rightarrow> action list" where
  \<comment> \<open>the first action of the given kind and everything after it\<close>
  "from_first P acts = dropWhile (Not \<circ> P) acts"

definition cmd_addr :: "machine \<Rightarrow> addr \<Rightarrow> addr" where
  \<comment> \<open>the address field of the command buffer at \<open>read_buf\<close>: bytes [4,8)\<close>
  "cmd_addr s read_buf = word_at (byte_order s) (mem s) (read_buf + 4)"

definition cmd_count :: "machine \<Rightarrow> addr \<Rightarrow> 32 word" where
  \<comment> \<open>the count field of the command buffer at \<open>read_buf\<close>: bytes [8,12)\<close>
  "cmd_count s read_buf = word_at (byte_order s) (mem s) (read_buf + 8)"

subsection \<open>The host's side of the command buffer\<close>

definition bytes_of_word :: "endian \<Rightarrow> 32 word \<Rightarrow> byte list" where
  \<comment> \<open>Modelled from the spec: the host that fills the command buffer is not among the
      sources. Section 6: "Command Buffer wire layout (bytes, host-endian 32-bit words)".
      The four bytes of a field, at increasing addresses.\<close>
  "bytes_of_word e w =
     (case e of
        Little_endian \<Rightarrow> [ucast w, ucast (drop_bit 8 w), ucast (drop_bit 16 w), ucast (drop_bit 24 w)]
      | Big_endian \<Rightarrow> [ucast (drop_bit 24 w), ucast (drop_bit 16 w), ucast (drop_bit 8 w), ucast w])"

fun write_bytes :: "(addr \<Rightarrow> byte) \<Rightarrow> addr \<Rightarrow> byte list \<Rightarrow> (addr \<Rightarrow> byte)" where
  \<comment> \<open>the memory after the given bytes have been placed from address \<open>a\<close> on\<close>
  "write_bytes m a [] = m"
| "write_bytes m a (b # bs) = write_bytes (m(a := b)) (a + 1) bs"

subsection \<open>Concrete machines\<close>

definition example_mem :: "addr \<Rightarrow> byte" where
  \<comment> \<open>The end-to-end example of the spec on a little-endian device: a command buffer at
      0x100 with address 0x1000 and count 4, and the bytes DE AD BE EF at 0x1000. The array
      \<^verbatim>\<open>greeting\<close> is at 0x4000 and holds its initialiser.\<close>
  "example_mem =
     (\<lambda>a. 0)(0x104 := 0x00, 0x105 := 0x10, 0x106 := 0x00, 0x107 := 0x00,
             0x108 := 0x04, 0x109 := 0x00, 0x10A := 0x00, 0x10B := 0x00,
             0x1000 := 0xDE, 0x1001 := 0xAD, 0x1002 := 0xBE, 0x1003 := 0xEF,
             0x4000 := 0x4F, 0x4001 := 0x6B, 0x4002 := 0x00, 0x4003 := 0x00)"

definition example_machine :: machine where
  "example_machine =
     \<lparr>mem = example_mem, byte_order = Little_endian, greeting = 0x4000, log = [], wire = []\<rparr>"

definition clobbered_machine :: machine where
  \<comment> \<open>the example machine after one invocation whose response buffer is the array
      \<^verbatim>\<open>greeting\<close>, that is after \<^verbatim>\<open>_start(cmd, greeting)\<close> with the pointer cast to the parameter type\<close>
  "clobbered_machine = snd (start 0x100 0x4000 example_machine)"

definition other_machine :: machine where
  \<comment> \<open>the same command and the same dumped bytes; bytes 0 and 1 of the command buffer, the
      response buffer at 0x200, an unrelated byte and the earlier history differ\<close>
  "other_machine =
     \<lparr>mem = example_mem(0x100 := 0xAA, 0x101 := 0xBB, 0x200 := 0x55, 0x3000 := 0x07),
      byte_order = Little_endian, greeting = 0x4000,
      log = [Store8 0x200 0x55], wire = [[0x01]]\<rparr>"

definition empty_dump_machine :: machine where
  \<comment> \<open>a big-endian device whose command buffer at 0x100 holds address 0x1000 and count 0;
      the array \<^verbatim>\<open>greeting\<close> is at 0x4000 and holds its initialiser\<close>
  "empty_dump_machine =
     \<lparr>mem = (\<lambda>a. 0xFF)(0x104 := 0x00, 0x105 := 0x00, 0x106 := 0x10, 0x107 := 0x00,
                      0x108 := 0x00, 0x109 := 0x00, 0x10A := 0x00, 0x10B := 0x00,
                      0x4000 := 0x4F, 0x4001 := 0x6B, 0x4002 := 0x00, 0x4003 := 0x00),
      byte_order = Big_endian, greeting = 0x4000, log = [], wire = []\<rparr>"

section \<open>Basic facts\<close>

lemma greeting_init_bytes: "greeting_init = [0x4F, 0x6B, 0x00, 0x00]"
  by (simp add: greeting_init_def c_string_literal_def)

lemma sizeof_greeting_eq: "sizeof_greeting = 4"
  by (simp add: sizeof_greeting_def greeting_init_bytes)

lemma length_read_bytes: "length (read_bytes m a n) = n"
  by (induction n arbitrary: a) simp_all

lemma decode_result:
  "fst (decode read_buf s) = (cmd_addr s read_buf, cmd_count s read_buf)"
  by (simp add: decode_def load32_def cmd_addr_def cmd_count_def)

lemma decode_state:
  "snd (decode read_buf s) = s\<lparr>log := log s @ [Load32 (read_buf + 8), Load32 (read_buf + 4)]\<rparr>"
  by (simp add: decode_def load32_def)

lemma doit_result: "fst (doit read_buf write_buf s) = 0"
  by (simp add: doit_def Let_def split_beta)

lemma doit_state:
  "snd (doit read_buf write_buf s) =
     s\<lparr>mem := (mem s)(write_buf := 0),
       log := log s @ [Load32 (read_buf + 8), Load32 (read_buf + 4),
                       Send_single (greeting s) sizeof_greeting,
                       Send_many (cmd_addr s read_buf) (cmd_count s read_buf),
                       Store8 write_buf 0],
       wire := wire s @ [read_bytes (mem s) (greeting s) sizeof_greeting,
                         read_bytes (mem s) (cmd_addr s read_buf) (unat (cmd_count s read_buf))]\<rparr>"
  by (simp add: doit_def decode_def load32_def store8_def cmd_addr_def cmd_count_def
      UART_protocol_send_single_def UART_protocol_send_many_def)

lemma start_doit: "start read_buf write_buf s = doit read_buf write_buf s"
  by (simp add: start_def split_beta)

lemma invocation_eq:
  "invocation read_buf write_buf s =
     [Load32 (read_buf + 8), Load32 (read_buf + 4),
      Send_single (greeting s) sizeof_greeting,
      Send_many (cmd_addr s read_buf) (cmd_count s read_buf),
      Store8 write_buf 0]"
  by (simp add: invocation_def start_doit doit_state)

lemma frames_eq:
  "frames read_buf write_buf s =
     [read_bytes (mem s) (greeting s) sizeof_greeting,
      read_bytes (mem s) (cmd_addr s read_buf) (unat (cmd_count s read_buf))]"
  by (simp add: frames_def start_doit doit_state)

lemma read_bytes_map: "read_bytes m a n = map (\<lambda>i. m (a + of_nat i)) [0..<n]"
proof (induction n arbitrary: a)
  case 0
  show ?case by simp
next
  case (Suc n)
  have "[0..<Suc n] = 0 # map Suc [0..<n]"
    by (simp add: upt_conv_Cons map_Suc_upt del: upt_Suc)
  then show ?case
    by (simp add: Suc.IH comp_def add.assoc del: upt_Suc)
qed

lemma read_bytes_numeral:
  "read_bytes m a (numeral k) = m a # read_bytes m (a + 1) (pred_numeral k)"
  by (simp add: numeral_eq_Suc)

lemma word_of_bytes_split:
  "word_of_bytes (ucast (drop_bit 24 w)) (ucast (drop_bit 16 w)) (ucast (drop_bit 8 w)) (ucast w) = w"
proof (rule bit_word_eqI)
  fix n :: nat
  assume n: "n < LENGTH(32)"
  consider "n < 8" | "8 \<le> n" "n < 16" | "16 \<le> n" "n < 24" | "24 \<le> n" "n < 32"
    using n by fastforce
  then show "bit (word_of_bytes (ucast (drop_bit 24 w)) (ucast (drop_bit 16 w))
                   (ucast (drop_bit 8 w)) (ucast w)) n = bit w n"
    by cases (auto simp add: word_of_bytes_def bit_simps)
qed

lemma example_addr: "cmd_addr example_machine 0x100 = 0x1000"
  by (simp add: cmd_addr_def example_machine_def example_mem_def word_at_def word_of_bytes_def)

lemma example_count: "cmd_count example_machine 0x100 = 4"
  by (simp add: cmd_count_def example_machine_def example_mem_def word_at_def word_of_bytes_def)

lemma decode_ignores_prefix:
  "fst (decode read_buf (s\<lparr>mem := write_bytes (mem s) read_buf [x0, x1, x2, x3]\<rparr>))
     = fst (decode read_buf s)"
  by (cases "byte_order s")
    (simp_all add: decode_result cmd_addr_def cmd_count_def word_at_def)

lemma decode_encoded:
  "fst (decode read_buf
         (s\<lparr>mem := write_bytes (mem s) (read_buf + 4)
                     (bytes_of_word (byte_order s) A @ bytes_of_word (byte_order s) N)\<rparr>))
     = (A, N)"
  by (cases "byte_order s")
    (simp_all add: decode_result cmd_addr_def cmd_count_def word_at_def bytes_of_word_def
      word_of_bytes_split)

lemma fields_of_bytes:
  assumes "read_bytes m1 (p1 + 4) 8 = read_bytes m2 (p2 + 4) 8"
  shows "word_at e m1 (p1 + 4) = word_at e m2 (p2 + 4)"
    and "word_at e m1 (p1 + 8) = word_at e m2 (p2 + 8)"
  using assms by (cases e; simp add: read_bytes_numeral word_at_def add.assoc)+

lemma example_greeting_addr: "greeting example_machine = 0x4000"
  by (simp add: example_machine_def)

lemma example_greeting:
  "read_bytes (mem example_machine) 0x4000 4 = [0x4F, 0x6B, 0x00, 0x00]"
  by (simp add: read_bytes_numeral example_machine_def example_mem_def)

lemma example_range:
  "read_bytes (mem example_machine) 0x1000 4 = [0xDE, 0xAD, 0xBE, 0xEF]"
  by (simp add: read_bytes_numeral example_machine_def example_mem_def)

lemma example_intact: "greeting_intact example_machine"
  by (simp add: greeting_intact_def sizeof_greeting_eq greeting_init_bytes
      example_greeting_addr example_greeting)

lemma clobbered_mem: "mem clobbered_machine = (mem example_machine)(0x4000 := 0)"
  by (simp add: clobbered_machine_def start_doit doit_state)

lemma clobbered_fields:
  "byte_order clobbered_machine = byte_order example_machine"
  "greeting clobbered_machine = 0x4000"
  by (simp_all add: clobbered_machine_def start_doit doit_state example_machine_def)

lemma clobbered_addr: "cmd_addr clobbered_machine 0x100 = 0x1000"
  by (simp add: cmd_addr_def clobbered_mem clobbered_fields word_at_def word_of_bytes_def
      example_machine_def example_mem_def)

lemma clobbered_count: "cmd_count clobbered_machine 0x100 = 4"
  by (simp add: cmd_count_def clobbered_mem clobbered_fields word_at_def word_of_bytes_def
      example_machine_def example_mem_def)

lemma clobbered_greeting:
  "read_bytes (mem clobbered_machine) 0x4000 4 = [0x00, 0x6B, 0x00, 0x00]"
  by (simp add: clobbered_mem read_bytes_numeral example_machine_def example_mem_def)

lemma clobbered_range:
  "read_bytes (mem clobbered_machine) 0x1000 4 = [0xDE, 0xAD, 0xBE, 0xEF]"
  by (simp add: clobbered_mem read_bytes_numeral example_machine_def example_mem_def)

section \<open>The frames of a dump\<close>

text \<open>
  C1. For every invocation whose command buffer encodes target address \<open>A\<close> in bytes [4,8)
  and count \<open>N\<close> in bytes [8,12), the payload makes exactly two transport calls, in this
  order: \<^verbatim>\<open>UART_protocol_send_single\<close> with the array \<^verbatim>\<open>greeting\<close> and its size, then
  \<^verbatim>\<open>UART_protocol_send_many\<close> with \<open>A\<close> and \<open>N\<close>. The first frame is what the array holds
  when the call is made, which is the token \<open>greeting_init\<close> whenever the array holds its
  initialiser. The second frame is the \<open>N\<close> bytes found at \<open>A\<close>, \<open>A + 1\<close>, ... at that
  time, in address order, nothing added, nothing cut and nothing reordered; no further
  frame follows.
\<close>

theorem dump_emits_greeting_then_range:
  assumes "cmd_addr s read_buf = A" and "cmd_count s read_buf = N"
  shows "filter is_transport (invocation read_buf write_buf s)
           = [Send_single (greeting s) sizeof_greeting, Send_many A N]
       \<and> frames read_buf write_buf s
           = [map (\<lambda>i. mem s (greeting s + of_nat i)) [0..<sizeof_greeting],
              map (\<lambda>i. mem s (A + of_nat i)) [0..<unat N]]
       \<and> (greeting_intact s \<longrightarrow>
            frames read_buf write_buf s
              = [greeting_init, map (\<lambda>i. mem s (A + of_nat i)) [0..<unat N]])"
  using assms by (simp add: invocation_eq frames_eq greeting_intact_def read_bytes_map)

theorem dump_emits_greeting_then_range_witness:
  "cmd_addr example_machine 0x100 = 0x1000 \<and> cmd_count example_machine 0x100 = 4
   \<and> greeting_intact example_machine
   \<and> filter is_transport (invocation 0x100 0x200 example_machine)
        = [Send_single 0x4000 4, Send_many 0x1000 4]
   \<and> frames 0x100 0x200 example_machine
        = [[0x4F, 0x6B, 0x00, 0x00], [0xDE, 0xAD, 0xBE, 0xEF]]"
proof -
  have u: "[0..<4::nat] = [0, 1, 2, 3]"
    by (simp add: upt_rec)
  have f: "map (\<lambda>i. mem example_machine (0x1000 + of_nat i)) [0..<4]
             = [0xDE, 0xAD, 0xBE, 0xEF]"
    by (simp add: u example_machine_def example_mem_def)
  have g: "map (\<lambda>i. mem example_machine (0x4000 + of_nat i)) [0..<4]
             = [0x4F, 0x6B, 0x00, 0x00]"
    by (simp add: u example_machine_def example_mem_def)
  show ?thesis
    using dump_emits_greeting_then_range [OF example_addr example_count, of "0x200"]
    by (simp add: example_addr example_count example_intact example_greeting_addr
        greeting_init_bytes sizeof_greeting_eq f g)
qed

section \<open>The greeting frame\<close>

text \<open>
  C2, as stated: the greeting frame of every invocation is 3 bytes long, with value
  \<open>'O', 'k', 0x00\<close>, and the \<^verbatim>\<open>UART_protocol_send_single\<close> call passes length 3. On the
  example machine no call with length 3 is made and no such frame is sent: the array
  \<^verbatim>\<open>greeting\<close> is initialised from the literal \<^verbatim>\<open>"Ok\0"\<close>, whose written zero byte is
  followed by the literal's own terminator, and the length passed is \<^verbatim>\<open>sizeof(greeting)\<close>.
  Nor is the value the same in every invocation: the array is writable, and after an
  invocation whose response buffer is the array itself the frame starts with a zero byte.
\<close>

theorem greeting_is_three_bytes_counterexample:
  "Send_single (greeting example_machine) 3 \<notin> set (invocation 0x100 0x200 example_machine)
   \<and> [0x4F, 0x6B, 0x00] \<notin> set (frames 0x100 0x200 example_machine)
   \<and> hd (frames 0x100 0x200 example_machine) = [0x4F, 0x6B, 0x00, 0x00]
   \<and> hd (frames 0x100 0x200 clobbered_machine) = [0x00, 0x6B, 0x00, 0x00]"
  by (simp add: invocation_eq frames_eq sizeof_greeting_eq example_greeting_addr
      example_greeting example_addr example_count example_range
      clobbered_fields clobbered_greeting)

text \<open>
  C2, amended: the greeting frame sent at the start of every invocation is exactly 4 bytes
  long; the one \<^verbatim>\<open>UART_protocol_send_single\<close> call of an invocation is the first transport
  call and passes the array \<^verbatim>\<open>greeting\<close> with length 4. Whenever the array holds its
  initialiser, the value of the frame is \<open>'O', 'k', 0x00, 0x00\<close>.
\<close>

theorem greeting_is_four_bytes:
  "filter is_send_single (invocation read_buf write_buf s) = [Send_single (greeting s) 4]
   \<and> hd (filter is_transport (invocation read_buf write_buf s)) = Send_single (greeting s) 4
   \<and> length (hd (frames read_buf write_buf s)) = 4
   \<and> (greeting_intact s \<longrightarrow> hd (frames read_buf write_buf s) = [0x4F, 0x6B, 0x00, 0x00])"
  by (simp add: invocation_eq frames_eq greeting_intact_def greeting_init_bytes
      sizeof_greeting_eq length_read_bytes)

theorem greeting_is_four_bytes_witness:
  "greeting_intact example_machine
   \<and> filter is_send_single (invocation 0x100 0x200 example_machine) = [Send_single 0x4000 4]
   \<and> hd (filter is_transport (invocation 0x100 0x200 example_machine)) = Send_single 0x4000 4
   \<and> length (hd (frames 0x100 0x200 example_machine)) = 4
   \<and> hd (frames 0x100 0x200 example_machine) = [0x4F, 0x6B, 0x00, 0x00]"
  using greeting_is_four_bytes [of "0x100" "0x200" example_machine]
  by (simp add: example_intact example_greeting_addr)

section \<open>Decoding the command\<close>

text \<open>
  C3. For every command buffer the decoder returns the address field read at offset 4 and
  the count read at offset 8, and these very values reach the bulk transport call. The only
  loads of an invocation are the two at offsets 8 and 4, and whatever bytes [0,4) of the
  buffer hold, the decoded pair is the same. Nothing is validated: for every address \<open>A\<close>
  and every count \<open>N\<close> (zero and the largest values included), a buffer that holds their
  encoding decodes to exactly \<open>(A, N)\<close>.
\<close>

theorem decode_passes_fields_through:
  "fst (decode read_buf s) = (cmd_addr s read_buf, cmd_count s read_buf)
   \<and> filter is_load (invocation read_buf write_buf s)
       = [Load32 (read_buf + 8), Load32 (read_buf + 4)]
   \<and> filter is_send_many (invocation read_buf write_buf s)
       = [Send_many (fst (fst (decode read_buf s))) (snd (fst (decode read_buf s)))]
   \<and> fst (decode read_buf (s\<lparr>mem := write_bytes (mem s) read_buf [x0, x1, x2, x3]\<rparr>))
       = fst (decode read_buf s)
   \<and> fst (decode read_buf
           (s\<lparr>mem := write_bytes (mem s) (read_buf + 4)
                       (bytes_of_word (byte_order s) A @ bytes_of_word (byte_order s) N)\<rparr>))
       = (A, N)"
  by (simp only: decode_ignores_prefix decode_encoded simp_thms)
    (simp add: decode_result invocation_eq)

text \<open>
  C4. In every invocation both command fields are read before the first transport call:
  the actions that precede the first transport call contain the loads of both fields, and
  from the first transport call on there is no load at all.
\<close>

theorem command_read_before_transport:
  "filter is_load (before_first is_transport (invocation read_buf write_buf s))
     = [Load32 (read_buf + 8), Load32 (read_buf + 4)]
   \<and> filter is_load (from_first is_transport (invocation read_buf write_buf s)) = []"
  by (simp add: invocation_eq before_first_def from_first_def)

section \<open>The response buffer\<close>

text \<open>
  C5. In every invocation there is exactly one store, of the value 0 to offset 0 of the
  response buffer; no store precedes the bulk transport call, the store is the action right
  after it, and the memory after the invocation differs from the memory before it at most
  in that one byte.
\<close>

theorem status_written_once_after_transfer:
  "filter is_store (invocation read_buf write_buf s) = [Store8 write_buf 0]
   \<and> filter is_store (before_first is_send_many (invocation read_buf write_buf s)) = []
   \<and> from_first is_send_many (invocation read_buf write_buf s)
       = [Send_many (cmd_addr s read_buf) (cmd_count s read_buf), Store8 write_buf 0]
   \<and> mem (snd (start read_buf write_buf s)) = (mem s)(write_buf := 0)"
  by (simp add: invocation_eq before_first_def from_first_def start_doit doit_state)

section \<open>An empty dump\<close>

text \<open>
  C6. When the count is 0, \<^verbatim>\<open>UART_protocol_send_many\<close> is called with length 0 and the bulk
  frame is empty; the greeting array is sent all the same (the token \<open>greeting_init\<close>
  whenever the array holds its initialiser), and the status byte of the response buffer
  is still written to 0.
\<close>

theorem empty_dump:
  assumes "cmd_count s read_buf = 0"
  shows "filter is_transport (invocation read_buf write_buf s)
           = [Send_single (greeting s) sizeof_greeting, Send_many (cmd_addr s read_buf) 0]
       \<and> frames read_buf write_buf s
           = [read_bytes (mem s) (greeting s) sizeof_greeting, []]
       \<and> (greeting_intact s \<longrightarrow> frames read_buf write_buf s = [greeting_init, []])
       \<and> filter is_store (invocation read_buf write_buf s) = [Store8 write_buf 0]
       \<and> mem (snd (start read_buf write_buf s)) write_buf = 0"
  using assms
  by (simp add: invocation_eq frames_eq greeting_intact_def start_doit doit_state)

theorem empty_dump_witness:
  "cmd_count empty_dump_machine 0x100 = 0
   \<and> greeting_intact empty_dump_machine
   \<and> filter is_transport (invocation 0x100 0x200 empty_dump_machine)
        = [Send_single 0x4000 4, Send_many 0x1000 0]
   \<and> frames 0x100 0x200 empty_dump_machine = [[0x4F, 0x6B, 0x00, 0x00], []]
   \<and> filter is_store (invocation 0x100 0x200 empty_dump_machine) = [Store8 0x200 0]
   \<and> mem (snd (start 0x100 0x200 empty_dump_machine)) 0x200 = 0"
proof -
  have c: "cmd_count empty_dump_machine 0x100 = 0"
    by (simp add: cmd_count_def empty_dump_machine_def word_at_def word_of_bytes_def)
  have a: "cmd_addr empty_dump_machine 0x100 = 0x1000"
    by (simp add: cmd_addr_def empty_dump_machine_def word_at_def word_of_bytes_def)
  have g: "greeting empty_dump_machine = 0x4000"
    by (simp add: empty_dump_machine_def)
  have i: "greeting_intact empty_dump_machine"
    by (simp add: greeting_intact_def sizeof_greeting_eq greeting_init_bytes
        read_bytes_numeral empty_dump_machine_def)
  have r: "read_bytes (mem empty_dump_machine) 0x4000 4 = [0x4F, 0x6B, 0x00, 0x00]"
    by (simp add: read_bytes_numeral empty_dump_machine_def)
  show ?thesis
    using empty_dump [OF c, of "0x200"]
    by (simp add: a c g i r greeting_init_bytes sizeof_greeting_eq)
qed

section \<open>Status code\<close>

text \<open>
  C7. For every input (every address and count, zero and out-of-range values included)
  the dump driver and the entry point return status code 0: no input is rejected or turned
  into a non-zero status.
\<close>

theorem status_always_zero:
  "fst (doit read_buf write_buf s) = 0 \<and> fst (start read_buf write_buf s) = 0"
  by (simp add: start_doit doit_result)

section \<open>Purity of decoding\<close>

text \<open>
  C8. Decoding a command buffer a second time yields the same (address, count) pair, and
  decoding changes neither the memory (so not the command buffer) nor the link: it makes
  no store.
\<close>

theorem decode_is_pure:
  "fst (decode read_buf (snd (decode read_buf s))) = fst (decode read_buf s)
   \<and> mem (snd (decode read_buf s)) = mem s
   \<and> byte_order (snd (decode read_buf s)) = byte_order s
   \<and> wire (snd (decode read_buf s)) = wire s
   \<and> filter is_store (drop (length (log s)) (log (snd (decode read_buf s)))) = []"
  by (simp add: decode_result decode_state cmd_addr_def cmd_count_def)

section \<open>What the observable behaviour depends on\<close>

text \<open>
  C10, as stated: two invocations whose command buffers agree on bytes [4,12) and whose
  memories agree on the dumped range show the same transport calls, status byte and return
  value, whatever the response buffers held before. The example machine and the machine
  left by an invocation that had the array \<^verbatim>\<open>greeting\<close> as its response buffer have the
  same command at 0x100 and the same bytes in the dumped range; they differ in memory in
  one byte only, the first byte of the array at 0x4000. Invoked with the response buffer
  at 0x4000, the two put different frames on the link: the greeting frame is read from the
  array, so it depends on what the response buffer held.
\<close>

theorem behaviour_depends_on_greeting_counterexample:
  "byte_order example_machine = byte_order clobbered_machine
   \<and> greeting example_machine = greeting clobbered_machine
   \<and> read_bytes (mem example_machine) (0x100 + 4) 8
       = read_bytes (mem clobbered_machine) (0x100 + 4) 8
   \<and> cmd_addr example_machine 0x100 = 0x1000 \<and> cmd_count example_machine 0x100 = 4
   \<and> read_bytes (mem example_machine) 0x1000 4 = read_bytes (mem clobbered_machine) 0x1000 4
   \<and> mem clobbered_machine = (mem example_machine)(0x4000 := 0)
   \<and> frames 0x100 0x4000 example_machine
       = [[0x4F, 0x6B, 0x00, 0x00], [0xDE, 0xAD, 0xBE, 0xEF]]
   \<and> frames 0x100 0x4000 clobbered_machine
       = [[0x00, 0x6B, 0x00, 0x00], [0xDE, 0xAD, 0xBE, 0xEF]]
   \<and> frames 0x100 0x4000 example_machine \<noteq> frames 0x100 0x4000 clobbered_machine"
proof -
  have c: "read_bytes (mem example_machine) (0x100 + 4) 8
             = read_bytes (mem clobbered_machine) (0x100 + 4) 8"
    by (simp add: clobbered_mem read_bytes_numeral)
  have f1: "frames 0x100 0x4000 example_machine
              = [[0x4F, 0x6B, 0x00, 0x00], [0xDE, 0xAD, 0xBE, 0xEF]]"
    by (simp add: frames_eq sizeof_greeting_eq example_greeting_addr example_greeting
        example_addr example_count example_range)
  have f2: "frames 0x100 0x4000 clobbered_machine
              = [[0x00, 0x6B, 0x00, 0x00], [0xDE, 0xAD, 0xBE, 0xEF]]"
    by (simp add: frames_eq sizeof_greeting_eq clobbered_fields clobbered_greeting
        clobbered_addr clobbered_count clobbered_range)
  have b: "byte_order example_machine = byte_order clobbered_machine"
    by (simp add: clobbered_fields)
  have g: "greeting example_machine = greeting clobbered_machine"
    by (simp add: clobbered_fields example_greeting_addr)
  have r: "read_bytes (mem example_machine) 0x1000 4
             = read_bytes (mem clobbered_machine) 0x1000 4"
    by (simp only: example_range clobbered_range)
  have n: "frames 0x100 0x4000 example_machine \<noteq> frames 0x100 0x4000 clobbered_machine"
    by (simp add: f1 f2)
  show ?thesis
    by (intro conjI b g c example_addr example_count r clobbered_mem f1 f2 n)
qed

text \<open>
  C10, amended: take two invocations of the same payload image on devices of the same byte
  order (so the array \<^verbatim>\<open>greeting\<close> is at the same address) whose command buffers agree on
  bytes [4,12) and whose memories agree on the dumped range and on the bytes of the array
  \<^verbatim>\<open>greeting\<close>. Then the transport calls, the frames sent, the status byte written and the
  return value are the same, whatever else the response buffers and bytes [0,4) of the
  command buffers held before, and whatever happened earlier.
\<close>

theorem behaviour_determined_by_command_range_and_greeting:
  assumes "byte_order s1 = byte_order s2"
    and "greeting s1 = greeting s2"
    and "read_bytes (mem s1) (read_buf1 + 4) 8 = read_bytes (mem s2) (read_buf2 + 4) 8"
    and "read_bytes (mem s1) (cmd_addr s1 read_buf1) (unat (cmd_count s1 read_buf1))
           = read_bytes (mem s2) (cmd_addr s1 read_buf1) (unat (cmd_count s1 read_buf1))"
    and "read_bytes (mem s1) (greeting s1) sizeof_greeting
           = read_bytes (mem s2) (greeting s2) sizeof_greeting"
  shows "filter is_transport (invocation read_buf1 write_buf1 s1)
           = filter is_transport (invocation read_buf2 write_buf2 s2)
       \<and> frames read_buf1 write_buf1 s1 = frames read_buf2 write_buf2 s2
       \<and> mem (snd (start read_buf1 write_buf1 s1)) write_buf1
           = mem (snd (start read_buf2 write_buf2 s2)) write_buf2
       \<and> fst (start read_buf1 write_buf1 s1) = fst (start read_buf2 write_buf2 s2)"
proof -
  have a: "cmd_addr s1 read_buf1 = cmd_addr s2 read_buf2"
    using assms(1) fields_of_bytes(1) [OF assms(3)] by (simp add: cmd_addr_def)
  have c: "cmd_count s1 read_buf1 = cmd_count s2 read_buf2"
    using assms(1) fields_of_bytes(2) [OF assms(3)] by (simp add: cmd_count_def)
  show ?thesis
    using assms(2) assms(4) assms(5)
    by (simp add: invocation_eq frames_eq start_doit doit_state doit_result a c)
qed

theorem behaviour_determined_by_command_range_and_greeting_witness:
  "byte_order example_machine = byte_order other_machine
   \<and> greeting example_machine = greeting other_machine
   \<and> read_bytes (mem example_machine) (0x100 + 4) 8 = read_bytes (mem other_machine) (0x100 + 4) 8
   \<and> read_bytes (mem example_machine) (cmd_addr example_machine 0x100)
         (unat (cmd_count example_machine 0x100))
       = read_bytes (mem other_machine) (cmd_addr example_machine 0x100)
           (unat (cmd_count example_machine 0x100))
   \<and> read_bytes (mem example_machine) (greeting example_machine) sizeof_greeting
       = read_bytes (mem other_machine) (greeting other_machine) sizeof_greeting
   \<and> mem example_machine 0x100 \<noteq> mem other_machine 0x100
   \<and> mem example_machine 0x200 \<noteq> mem other_machine 0x200
   \<and> filter is_transport (invocation 0x100 0x200 example_machine)
       = filter is_transport (invocation 0x100 0x200 other_machine)
   \<and> frames 0x100 0x200 example_machine = frames 0x100 0x200 other_machine
   \<and> mem (snd (start 0x100 0x200 example_machine)) 0x200
       = mem (snd (start 0x100 0x200 other_machine)) 0x200
   \<and> fst (start 0x100 0x200 example_machine) = fst (start 0x100 0x200 other_machine)"
proof -
  have h1: "byte_order example_machine = byte_order other_machine"
    by (simp add: example_machine_def other_machine_def)
  have h2: "greeting example_machine = greeting other_machine"
    by (simp add: example_machine_def other_machine_def)
  have h3: "read_bytes (mem example_machine) (0x100 + 4) 8
              = read_bytes (mem other_machine) (0x100 + 4) 8"
    by (simp add: example_machine_def other_machine_def example_mem_def read_bytes_numeral)
  have h4: "read_bytes (mem example_machine) (cmd_addr example_machine 0x100)
                (unat (cmd_count example_machine 0x100))
              = read_bytes (mem other_machine) (cmd_addr example_machine 0x100)
                  (unat (cmd_count example_machine 0x100))"
    by (simp add: example_addr example_count read_bytes_numeral)
      (simp add: example_machine_def other_machine_def example_mem_def)
  have h5: "read_bytes (mem example_machine) (greeting example_machine) sizeof_greeting
              = read_bytes (mem other_machine) (greeting other_machine) sizeof_greeting"
    by (simp add: sizeof_greeting_eq read_bytes_numeral)
      (simp add: example_machine_def other_machine_def example_mem_def)
  have d: "mem example_machine 0x100 \<noteq> mem other_machine 0x100"
      "mem example_machine 0x200 \<noteq> mem other_machine 0x200"
    by (simp_all add: example_machine_def other_machine_def example_mem_def)
  show ?thesis
    using behaviour_determined_by_command_range_and_greeting
      [OF h1 h2 h3 h4 h5, of "0x200" "0x200"] h1 h2 h3 h4 h5 d
    by simp
qed

end
